theory Spec2Isabelle
  imports Main "HOL-Library.Word" "HOL-Library.Monad_Syntax"
begin

unbundle bit_operations_syntax

section \<open>Machine model\<close>

text \<open>
  The library is three header files of \<^verbatim>\<open>static inline\<close> functions over the
  memory-mapped registers of the Cortex-M trace components. The registers are modelled as
  an explicit store from register names to 32-bit values. Every store to a register is
  also appended to a log, so that "performs no register write" and "writes once" are
  statements about the log and not only about the final values.

  C integers: \<^verbatim>\<open>int\<close> and \<^verbatim>\<open>uint32_t\<close> are both 32 bits wide on the target
  (the build files name arm-none-eabi-gcc for a Cortex-M3) and are represented by
  \<^typ>\<open>32 word\<close>; \<^verbatim>\<open>uint8_t\<close> operands are promoted with \<^const>\<open>ucast\<close>. Addition,
  subtraction and a left shift by a constant count below 32 act on the two's complement
  representation. A left shift whose count is not in \<open>0..31\<close> has no defined result, and
  neither has a signed subtraction whose result does not fit 32 bits.

  An object of a C enumeration type holds a value of the underlying integer type, which
  need not be one of the enumerators. An \<^verbatim>\<open>enum\<close> field is therefore the integer that
  \<^verbatim>\<open>(int)\<close> reads from it, and the enumerators are named constants.

  A function whose result has an option type returns \<open>None\<close> when the call has no
  defined final state: a shift without a defined result, a read past the end of the
  buffer, or a busy-wait that never ends.
\<close>

type_synonym u8 = "8 word"
type_synonym u16 = "16 word"
type_synonym u32 = "32 word"

datatype reg =
    CoreDebug_DEMCR
  | ITM_LAR | ITM_TCR | ITM_TER | ITM_PORT u8
  | DWT_LAR | DWT_CTRL | DWT_COMP nat | DWT_MASK nat | DWT_FUNCTION nat
  | TPI_ACPR | TPI_SPPR | TPI_CSPSR | TPI_FFCR

text \<open>A bus access with its width: the union members \<^verbatim>\<open>u8\<close>, \<^verbatim>\<open>u16\<close>, \<^verbatim>\<open>u32\<close> of a
  stimulus port register, and plain 32-bit stores everywhere else.\<close>

datatype access = W8 u8 | W16 u16 | W32 u32

text \<open>
  \<open>regs\<close> holds the value each ordinary register reads back; \<open>wlog\<close> is every store
  performed so far, oldest first. A stimulus port register does not read back what was
  written: a read returns the FIFO status, which the hardware decides.
  \<open>fifo_ready p n\<close> is what the read of \<^verbatim>\<open>ITM->PORT[p].u32\<close> returns when \<open>n\<close> status
  reads have been made before it, and \<open>polls\<close> counts the status reads made so far.
\<close>

record machine =
  regs :: "reg \<Rightarrow> u32"
  wlog :: "(reg \<times> access) list"
  fifo_ready :: "u8 \<Rightarrow> nat \<Rightarrow> u32"
  polls :: nat

definition load :: "reg \<Rightarrow> machine \<Rightarrow> u32" where
  "load r s = regs s r"

definition store :: "reg \<Rightarrow> u32 \<Rightarrow> machine \<Rightarrow> machine" where
  "store r v s = s\<lparr>regs := (regs s)(r := v), wlog := wlog s @ [(r, W32 v)]\<rparr>"

definition stim_status :: "u8 \<Rightarrow> machine \<Rightarrow> u32" where
  "stim_status p s = fifo_ready s p (polls s)"

definition stim_tick :: "machine \<Rightarrow> machine" where
  "stim_tick s = s\<lparr>polls := Suc (polls s)\<rparr>"

definition stim_write :: "u8 \<Rightarrow> access \<Rightarrow> machine \<Rightarrow> machine" where
  "stim_write p a s = s\<lparr>wlog := wlog s @ [(ITM_PORT p, a)]\<rparr>"

text \<open>\<^verbatim>\<open>x << n\<close> on a 32-bit operand with a count computed at run time.\<close>

definition shl_int :: "u32 \<Rightarrow> int \<Rightarrow> u32 option" where
  "shl_int x n = (if 0 \<le> n \<and> n < 32 then Some (push_bit (nat n) x) else None)"

text \<open>\<^verbatim>\<open>a - b\<close> on two \<^verbatim>\<open>int\<close> operands.\<close>

definition sub_int :: "u32 \<Rightarrow> u32 \<Rightarrow> u32 option" where
  "sub_int a b =
    (if - (2 ^ 31) \<le> sint a - sint b \<and> sint a - sint b < 2 ^ 31 then Some (a - b) else None)"

text \<open>
  A straight-line function stores whatever value the compiled operation produced, also
  where C gives the operation no defined result. What the compiled code produces there
  is a parameter: \<open>shl_out_of_range\<close> for a shift whose count is not in \<open>0..31\<close>,
  \<open>sub_overflow\<close> for a subtraction that overflows.
\<close>

record target =
  shl_out_of_range :: "u32 \<Rightarrow> int \<Rightarrow> u32"
  sub_overflow :: "u32 \<Rightarrow> u32 \<Rightarrow> u32"

definition shl_on :: "target \<Rightarrow> u32 \<Rightarrow> int \<Rightarrow> u32" where
  "shl_on T x n = (case shl_int x n of Some v \<Rightarrow> v | None \<Rightarrow> shl_out_of_range T x n)"

definition sub_on :: "target \<Rightarrow> u32 \<Rightarrow> u32 \<Rightarrow> u32" where
  "sub_on T a b = (case sub_int a b of Some v \<Rightarrow> v | None \<Rightarrow> sub_overflow T a b)"

text \<open>
  The Cortex-M3 that the build files name, with the operations compiled to single
  instructions: \<^verbatim>\<open>LSL\<close> by a register takes the count from the low byte of the register
  and gives 0 for a count of 32 or more; \<^verbatim>\<open>SUB\<close> wraps around.
\<close>

definition cortex_m3 :: target where
  "cortex_m3 =
    \<lparr>shl_out_of_range =
       (\<lambda>x n. if nat (n mod 256) < 32 then push_bit (nat (n mod 256)) x else 0),
     sub_overflow = (\<lambda>a b. a - b)\<rparr>"

text \<open>The same shift on a shifter that takes the count modulo 32.\<close>

definition shl_mod32 :: "u32 \<Rightarrow> int \<Rightarrow> u32 option" where
  "shl_mod32 x n = Some (push_bit (nat (n mod 32)) x)"

text \<open>\<^verbatim>\<open>c ? 1 : 0\<close>\<close>

definition bool_int :: "bool \<Rightarrow> u32" where
  "bool_int c = (if c then 1 else 0)"

subsection \<open>Register layout constants\<close>

text \<open>
  Modelled from the spec: the bit positions and masks come from the vendor's CMSIS core
  header (\<^verbatim>\<open>core_cm3.h\<close>), which the headers require to be included first and which is
  not part of the repository. The spec calls them the documented bit positions; the
  values below are those of the ARMv7-M register layout that the CMSIS header encodes.
\<close>

definition CoreDebug_DEMCR_TRCENA_Msk :: u32 where "CoreDebug_DEMCR_TRCENA_Msk = push_bit 24 1"

definition ITM_TCR_TraceBusID_Pos :: nat where "ITM_TCR_TraceBusID_Pos = 16"
definition ITM_TCR_GTSFREQ_Pos :: nat where "ITM_TCR_GTSFREQ_Pos = 10"
definition ITM_TCR_TSPrescale_Pos :: nat where "ITM_TCR_TSPrescale_Pos = 8"
definition ITM_TCR_DWTENA_Pos :: nat where "ITM_TCR_DWTENA_Pos = 3"
definition ITM_TCR_SYNCENA_Pos :: nat where "ITM_TCR_SYNCENA_Pos = 2"
definition ITM_TCR_TSENA_Pos :: nat where "ITM_TCR_TSENA_Pos = 1"
definition ITM_TCR_ITMENA_Msk :: u32 where "ITM_TCR_ITMENA_Msk = 1"

definition DWT_CTRL_FOLDEVTENA_Pos :: nat where "DWT_CTRL_FOLDEVTENA_Pos = 21"
definition DWT_CTRL_LSUEVTENA_Pos :: nat where "DWT_CTRL_LSUEVTENA_Pos = 20"
definition DWT_CTRL_SLEEPEVTENA_Pos :: nat where "DWT_CTRL_SLEEPEVTENA_Pos = 19"
definition DWT_CTRL_EXCEVTENA_Pos :: nat where "DWT_CTRL_EXCEVTENA_Pos = 18"
definition DWT_CTRL_CPIEVTENA_Pos :: nat where "DWT_CTRL_CPIEVTENA_Pos = 17"
definition DWT_CTRL_EXCTRCENA_Pos :: nat where "DWT_CTRL_EXCTRCENA_Pos = 16"
definition DWT_CTRL_PCSAMPLENA_Pos :: nat where "DWT_CTRL_PCSAMPLENA_Pos = 12"
definition DWT_CTRL_SYNCTAP_Pos :: nat where "DWT_CTRL_SYNCTAP_Pos = 10"
definition DWT_CTRL_CYCTAP_Pos :: nat where "DWT_CTRL_CYCTAP_Pos = 9"
definition DWT_CTRL_POSTPRESET_Pos :: nat where "DWT_CTRL_POSTPRESET_Pos = 1"
definition DWT_CTRL_CYCCNTENA_Msk :: u32 where "DWT_CTRL_CYCCNTENA_Msk = 1"

definition DWT_FUNCTION_FUNCTION_Pos :: nat where "DWT_FUNCTION_FUNCTION_Pos = 0"
definition DWT_FUNCTION_FUNCTION_Msk :: u32 where "DWT_FUNCTION_FUNCTION_Msk = 0xF"
definition DWT_FUNCTION_EMITRANGE_Pos :: nat where "DWT_FUNCTION_EMITRANGE_Pos = 5"

definition TPI_FFCR_EnFCont_Msk :: u32 where "TPI_FFCR_EnFCont_Msk = push_bit 1 1"

section \<open>itm.h\<close>

type_synonym ITMGlobalTimestampFrequency = u32

definition ITMGlobalTimestampFrequencyDisabled :: ITMGlobalTimestampFrequency where
  "ITMGlobalTimestampFrequencyDisabled = 0"

definition ITMGlobalTimestampFrequencyPosition7 :: ITMGlobalTimestampFrequency where
  "ITMGlobalTimestampFrequencyPosition7 = 1"

definition ITMGlobalTimestampFrequencyPosition13 :: ITMGlobalTimestampFrequency where
  "ITMGlobalTimestampFrequencyPosition13 = 2"

definition ITMGlobalTimestampFrequencyIfOutputFIFOEmpty :: ITMGlobalTimestampFrequency where
  "ITMGlobalTimestampFrequencyIfOutputFIFOEmpty = 3"

type_synonym ITMLocalTimestampPrescaler = u32

definition ITMLocalTimestampPrescalerNoPrescaling :: ITMLocalTimestampPrescaler where
  "ITMLocalTimestampPrescalerNoPrescaling = 0"

definition ITMLocalTimestampPrescalerDivideBy4 :: ITMLocalTimestampPrescaler where
  "ITMLocalTimestampPrescalerDivideBy4 = 1"

definition ITMLocalTimestampPrescalerDivideBy10 :: ITMLocalTimestampPrescaler where
  "ITMLocalTimestampPrescalerDivideBy10 = 2"

definition ITMLocalTimestampPrescalerDivideBy64 :: ITMLocalTimestampPrescaler where
  "ITMLocalTimestampPrescalerDivideBy64 = 3"

record ITMOptions =
  TraceBusID :: u32
  GlobalTimestampFrequency :: ITMGlobalTimestampFrequency
  LocalTimestampPrescaler :: ITMLocalTimestampPrescaler
  EnableLocalTimestamp :: bool
  ForwardDWT :: bool
  EnableSyncPacket :: bool
  EnabledStimulusPorts :: u32

definition ITMSetup :: "ITMOptions \<Rightarrow> machine \<Rightarrow> machine" where
  "ITMSetup options s =
    (let s = store CoreDebug_DEMCR (load CoreDebug_DEMCR s OR CoreDebug_DEMCR_TRCENA_Msk) s;
         s = store ITM_LAR 0xC5ACCE55 s;
         tcr = 0;
         tcr = tcr OR push_bit ITM_TCR_TraceBusID_Pos (TraceBusID options);
         tcr = tcr OR push_bit ITM_TCR_GTSFREQ_Pos (GlobalTimestampFrequency options);
         tcr = tcr OR push_bit ITM_TCR_TSPrescale_Pos (LocalTimestampPrescaler options);
         tcr = tcr OR push_bit ITM_TCR_DWTENA_Pos (bool_int (ForwardDWT options));
         tcr = tcr OR push_bit ITM_TCR_SYNCENA_Pos (bool_int (EnableSyncPacket options));
         tcr = tcr OR push_bit ITM_TCR_TSENA_Pos (bool_int (EnableLocalTimestamp options));
         tcr = tcr OR ITM_TCR_ITMENA_Msk;
         s = store ITM_TCR tcr s
     in store ITM_TER 0xFFFFFFFF s)"

text \<open>
  \<^verbatim>\<open>&&\<close> evaluates its right operand only when the left one is true, so the shift
  \<^verbatim>\<open>1 << port\<close> is computed only when the ITM is enabled. The shift is a parameter so
  that the same body can be read under another shifter.
\<close>

definition ITMIsPortEnabled_on :: "(u32 \<Rightarrow> int \<Rightarrow> u32 option) \<Rightarrow> u8 \<Rightarrow> machine \<Rightarrow> bool option" where
  "ITMIsPortEnabled_on shl port s =
    (if load ITM_TCR s AND ITM_TCR_ITMENA_Msk \<noteq> 0
     then do { m \<leftarrow> shl 1 (uint port); Some (load ITM_TER s AND m \<noteq> 0) }
     else Some False)"

definition ITMIsPortEnabled :: "u8 \<Rightarrow> machine \<Rightarrow> bool option" where
  "ITMIsPortEnabled = ITMIsPortEnabled_on shl_int"

text \<open>
  \<^verbatim>\<open>while(ITM->PORT[port].u32 == 0UL) { __NOP(); }\<close>: every evaluation of the condition
  is one status read. The loop has no bound; not returning is the value \<open>None\<close>.
\<close>

partial_function (option) wait_fifo :: "u8 \<Rightarrow> machine \<Rightarrow> machine option" where
  [code]: "wait_fifo port s =
    (if stim_status port s = 0 then wait_fifo port (stim_tick s) else Some (stim_tick s))"

definition ITMWrite8 :: "u8 \<Rightarrow> u8 \<Rightarrow> machine \<Rightarrow> machine option" where
  "ITMWrite8 port v s =
    do { en \<leftarrow> ITMIsPortEnabled port s;
         if \<not> en then Some s
         else do { s \<leftarrow> wait_fifo port s; Some (stim_write port (W8 v) s) } }"

definition ITMWrite16 :: "u8 \<Rightarrow> u16 \<Rightarrow> machine \<Rightarrow> machine option" where
  "ITMWrite16 port v s =
    do { en \<leftarrow> ITMIsPortEnabled port s;
         if \<not> en then Some s
         else do { s \<leftarrow> wait_fifo port s; Some (stim_write port (W16 v) s) } }"

definition ITMWrite32 :: "u8 \<Rightarrow> u32 \<Rightarrow> machine \<Rightarrow> machine option" where
  "ITMWrite32 port v s =
    do { en \<leftarrow> ITMIsPortEnabled port s;
         if \<not> en then Some s
         else do { s \<leftarrow> wait_fifo port s; Some (stim_write port (W32 v) s) } }"

text \<open>
  \<^verbatim>\<open>memcpy(&v, buf8, sizeof(v))\<close> on the little-endian target: the byte at the lowest
  address is the least significant one. The buffer is the list of bytes from the
  pointer \<^verbatim>\<open>buf8\<close> on; reading past its end has no defined result.
\<close>

definition le_u16 :: "u8 \<Rightarrow> u8 \<Rightarrow> u16" where
  "le_u16 b0 b1 = ucast b0 OR push_bit 8 (ucast b1)"

definition le_u32 :: "u8 \<Rightarrow> u8 \<Rightarrow> u8 \<Rightarrow> u8 \<Rightarrow> u32" where
  "le_u32 b0 b1 b2 b3 =
     ucast b0 OR push_bit 8 (ucast b1) OR push_bit 16 (ucast b2) OR push_bit 24 (ucast b3)"

definition memcpy_u32 :: "u8 list \<Rightarrow> u32 option" where
  "memcpy_u32 buf8 =
    (case buf8 of b0 # b1 # b2 # b3 # _ \<Rightarrow> Some (le_u32 b0 b1 b2 b3) | _ \<Rightarrow> None)"

definition memcpy_u16 :: "u8 list \<Rightarrow> u16 option" where
  "memcpy_u16 buf8 = (case buf8 of b0 # b1 # _ \<Rightarrow> Some (le_u16 b0 b1) | _ \<Rightarrow> None)"

definition deref_u8 :: "u8 list \<Rightarrow> u8 option" where
  "deref_u8 buf8 = (case buf8 of b0 # _ \<Rightarrow> Some b0 | _ \<Rightarrow> None)"

declare Option.bind_cong [fundef_cong]

text \<open>The three loops of \<^verbatim>\<open>ITMWriteBuffer\<close>, each running into the next one. The
  parameter \<^verbatim>\<open>size\<close> is written \<open>sz\<close> (\<open>size\<close> is a constant of HOL); it only ever
  decreases, so a natural number stands for the \<^verbatim>\<open>size_t\<close>.\<close>

function ITMWriteBuffer_bytes :: "u8 \<Rightarrow> u8 list \<Rightarrow> nat \<Rightarrow> machine \<Rightarrow> machine option" where
  "ITMWriteBuffer_bytes port buf8 sz s =
    (if sz > 0
     then do { s \<leftarrow> wait_fifo port s;
               v \<leftarrow> deref_u8 buf8;
               ITMWriteBuffer_bytes port (drop 1 buf8) (sz - 1) (stim_write port (W8 v) s) }
     else Some s)"
  by pat_completeness auto
termination
  by (relation "measure (\<lambda>(port, buf8, sz, s). sz)") auto

function ITMWriteBuffer_halves :: "u8 \<Rightarrow> u8 list \<Rightarrow> nat \<Rightarrow> machine \<Rightarrow> machine option" where
  "ITMWriteBuffer_halves port buf8 sz s =
    (if sz \<ge> 2
     then do { v \<leftarrow> memcpy_u16 buf8;
               v \<leftarrow> memcpy_u16 buf8;
               s \<leftarrow> wait_fifo port s;
               ITMWriteBuffer_halves port (drop 2 buf8) (sz - 2) (stim_write port (W16 v) s) }
     else ITMWriteBuffer_bytes port buf8 sz s)"
  by pat_completeness auto
termination
  by (relation "measure (\<lambda>(port, buf8, sz, s). sz)") auto

function ITMWriteBuffer_words :: "u8 \<Rightarrow> u8 list \<Rightarrow> nat \<Rightarrow> machine \<Rightarrow> machine option" where
  "ITMWriteBuffer_words port buf8 sz s =
    (if sz \<ge> 4
     then do { v \<leftarrow> memcpy_u32 buf8;
               s \<leftarrow> wait_fifo port s;
               ITMWriteBuffer_words port (drop 4 buf8) (sz - 4) (stim_write port (W32 v) s) }
     else ITMWriteBuffer_halves port buf8 sz s)"
  by pat_completeness auto
termination
  by (relation "measure (\<lambda>(port, buf8, sz, s). sz)") auto

declare ITMWriteBuffer_bytes.simps [simp del] ITMWriteBuffer_halves.simps [simp del]
  ITMWriteBuffer_words.simps [simp del]

definition ITMWriteBuffer :: "u8 \<Rightarrow> u8 list \<Rightarrow> nat \<Rightarrow> machine \<Rightarrow> machine option" where
  "ITMWriteBuffer port buffer sz s =
    do { en \<leftarrow> ITMIsPortEnabled port s;
         if \<not> en then Some s
         else ITMWriteBuffer_words port buffer sz s }"

section \<open>dwt.h\<close>

type_synonym DWTSyncTap = u32

definition DWTSyncTap24 :: DWTSyncTap where "DWTSyncTap24 = 1"
definition DWTSyncTap26 :: DWTSyncTap where "DWTSyncTap26 = 2"
definition DWTSyncTap28 :: DWTSyncTap where "DWTSyncTap28 = 3"

type_synonym DWTCycleTap = u32

definition DWTCycleTap10 :: DWTCycleTap where "DWTCycleTap10 = 1"

record DWTOptions =
  FoldedInstructionCounterEvent :: bool
  LSUCounterEvent :: bool
  SleepCounterEvent :: bool
  ExceptionOverheadCounterEvent :: bool
  CPICounterEvent :: bool
  ExceptionTrace :: bool
  PCSampling :: bool
  SyncTap :: DWTSyncTap
  CycleTap :: DWTCycleTap
  SamplingPrescaler :: u8

definition DWTSetup :: "DWTOptions \<Rightarrow> machine \<Rightarrow> machine" where
  "DWTSetup options s =
    (let s = store CoreDebug_DEMCR (load CoreDebug_DEMCR s OR CoreDebug_DEMCR_TRCENA_Msk) s;
         s = store DWT_LAR 0xC5ACCE55 s;
         ctrl = 0;
         ctrl = ctrl OR push_bit DWT_CTRL_FOLDEVTENA_Pos (bool_int (FoldedInstructionCounterEvent options));
         ctrl = ctrl OR push_bit DWT_CTRL_LSUEVTENA_Pos (bool_int (LSUCounterEvent options));
         ctrl = ctrl OR push_bit DWT_CTRL_SLEEPEVTENA_Pos (bool_int (SleepCounterEvent options));
         ctrl = ctrl OR push_bit DWT_CTRL_EXCEVTENA_Pos (bool_int (ExceptionOverheadCounterEvent options));
         ctrl = ctrl OR push_bit DWT_CTRL_CPIEVTENA_Pos (bool_int (CPICounterEvent options));
         ctrl = ctrl OR push_bit DWT_CTRL_EXCTRCENA_Pos (bool_int (ExceptionTrace options));
         ctrl = ctrl OR push_bit DWT_CTRL_PCSAMPLENA_Pos (bool_int (PCSampling options));
         ctrl = ctrl OR push_bit DWT_CTRL_SYNCTAP_Pos (SyncTap options AND 3);
         ctrl = ctrl OR push_bit DWT_CTRL_CYCTAP_Pos (CycleTap options AND 3);
         ctrl = ctrl OR push_bit DWT_CTRL_POSTPRESET_Pos (ucast (SamplingPrescaler options) - 1);
         ctrl = ctrl OR DWT_CTRL_CYCCNTENA_Msk
     in store DWT_CTRL ctrl s)"

text \<open>\<^verbatim>\<open>uintptr_t\<close> is 32 bits wide on the target. A \<^verbatim>\<open>switch\<close> without a
  \<^verbatim>\<open>default\<close> label does nothing for a value that no \<^verbatim>\<open>case\<close> names.\<close>

definition DWTEnableComparator :: "u8 \<Rightarrow> u32 \<Rightarrow> u8 \<Rightarrow> bool \<Rightarrow> u8 \<Rightarrow> machine \<Rightarrow> machine" where
  "DWTEnableComparator comparator address ignoreBits emitRange func s =
    (let funcRaw = (push_bit DWT_FUNCTION_FUNCTION_Pos (ucast func) AND DWT_FUNCTION_FUNCTION_Msk)
                   OR push_bit DWT_FUNCTION_EMITRANGE_Pos (bool_int emitRange)
     in if comparator = 0 then
          store (DWT_FUNCTION 0) funcRaw (store (DWT_MASK 0) (ucast ignoreBits) (store (DWT_COMP 0) address s))
        else if comparator = 1 then
          store (DWT_FUNCTION 1) funcRaw (store (DWT_MASK 1) (ucast ignoreBits) (store (DWT_COMP 1) address s))
        else if comparator = 2 then
          store (DWT_FUNCTION 2) funcRaw (store (DWT_MASK 2) (ucast ignoreBits) (store (DWT_COMP 2) address s))
        else if comparator = 3 then
          store (DWT_FUNCTION 3) funcRaw (store (DWT_MASK 3) (ucast ignoreBits) (store (DWT_COMP 3) address s))
        else s)"

definition DWTDisableComparator :: "u8 \<Rightarrow> machine \<Rightarrow> machine" where
  "DWTDisableComparator comparator s =
    (if comparator = 0 then store (DWT_FUNCTION 0) 0 s
     else if comparator = 1 then store (DWT_FUNCTION 1) 0 s
     else if comparator = 2 then store (DWT_FUNCTION 2) 0 s
     else if comparator = 3 then store (DWT_FUNCTION 3) 0 s
     else s)"

section \<open>tpiu.h\<close>

type_synonym TpiuProtocol = u32

definition TpiuProtocolParallel :: TpiuProtocol where "TpiuProtocolParallel = 0"
definition TpiuProtocolSwoManchester :: TpiuProtocol where "TpiuProtocolSwoManchester = 1"
definition TpiuProtocolSwoUart :: TpiuProtocol where "TpiuProtocolSwoUart = 2"

record TpiuOptions =
  Protocol :: TpiuProtocol
  FormattingEnabled :: bool
  SwoPrescaler :: u32
  TracePortWidth :: u8

text \<open>
  The function is straight-line: it makes its five stores for every options record.
  \<^verbatim>\<open>options->SwoPrescaler - 1\<close> is an \<^verbatim>\<open>int\<close> subtraction, and
  \<^verbatim>\<open>1 << (options->TracePortWidth - 1)\<close> shifts by a count from -1 to 254; where C gives
  these no defined result the value stored is the target's.
\<close>

definition TpiuSetup :: "target \<Rightarrow> TpiuOptions \<Rightarrow> machine \<Rightarrow> machine" where
  "TpiuSetup T options s =
    (let s = store CoreDebug_DEMCR (load CoreDebug_DEMCR s OR CoreDebug_DEMCR_TRCENA_Msk) s;
         s = store TPI_ACPR (sub_on T (SwoPrescaler options) 1) s;
         s = store TPI_SPPR (Protocol options) s;
         s = store TPI_CSPSR (shl_on T 1 (uint (TracePortWidth options) - 1)) s
     in if FormattingEnabled options
        then store TPI_FFCR (load TPI_FFCR s OR TPI_FFCR_EnFCont_Msk) s
        else store TPI_FFCR (load TPI_FFCR s AND NOT TPI_FFCR_EnFCont_Msk) s)"

section \<open>Derived descriptions and concrete inputs\<close>

text \<open>The value of the local variable \<^verbatim>\<open>ctrl\<close> of \<^verbatim>\<open>DWTSetup\<close> at the store to
  \<^verbatim>\<open>DWT->CTRL\<close>, as one expression.\<close>

definition DWTSetup_ctrl :: "DWTOptions \<Rightarrow> u32" where
  "DWTSetup_ctrl options =
     push_bit DWT_CTRL_FOLDEVTENA_Pos (bool_int (FoldedInstructionCounterEvent options))
  OR push_bit DWT_CTRL_LSUEVTENA_Pos (bool_int (LSUCounterEvent options))
  OR push_bit DWT_CTRL_SLEEPEVTENA_Pos (bool_int (SleepCounterEvent options))
  OR push_bit DWT_CTRL_EXCEVTENA_Pos (bool_int (ExceptionOverheadCounterEvent options))
  OR push_bit DWT_CTRL_CPIEVTENA_Pos (bool_int (CPICounterEvent options))
  OR push_bit DWT_CTRL_EXCTRCENA_Pos (bool_int (ExceptionTrace options))
  OR push_bit DWT_CTRL_PCSAMPLENA_Pos (bool_int (PCSampling options))
  OR push_bit DWT_CTRL_SYNCTAP_Pos (SyncTap options AND 3)
  OR push_bit DWT_CTRL_CYCTAP_Pos (CycleTap options AND 3)
  OR push_bit DWT_CTRL_POSTPRESET_Pos (ucast (SamplingPrescaler options) - 1)
  OR DWT_CTRL_CYCCNTENA_Msk"

text \<open>What a logged access is on the trace port: its width in bits, and its bytes in the
  order the ITM sends them (a stimulus packet carries its payload least significant byte
  first).\<close>

fun access_width :: "access \<Rightarrow> nat" where
  "access_width (W8 _) = 8"
| "access_width (W16 _) = 16"
| "access_width (W32 _) = 32"

fun access_bytes :: "access \<Rightarrow> u8 list" where
  "access_bytes (W8 b) = [b]"
| "access_bytes (W16 h) = [ucast h, ucast (drop_bit 8 h)]"
| "access_bytes (W32 w) =
     [ucast w, ucast (drop_bit 8 w), ucast (drop_bit 16 w), ucast (drop_bit 24 w)]"

text \<open>The FIFO of a port drains: after any number of status reads a later one finds it
  ready. Without this the busy-wait of a write never ends.\<close>

definition fifo_live :: "u8 \<Rightarrow> machine \<Rightarrow> bool" where
  "fifo_live port s \<longleftrightarrow> (\<forall>t. \<exists>k. fifo_ready s port (t + k) \<noteq> 0)"

text \<open>From \<open>s\<close> to \<open>s'\<close> the accesses \<open>accs\<close>, all to stimulus port \<open>port\<close>, were logged
  in this order and nothing else was stored.\<close>

definition emitted :: "u8 \<Rightarrow> machine \<Rightarrow> access list \<Rightarrow> machine \<Rightarrow> bool" where
  "emitted port s accs s' \<longleftrightarrow>
     wlog s' = wlog s @ map (Pair (ITM_PORT port)) accs \<and>
     regs s' = regs s \<and> fifo_ready s' = fifo_ready s"

text \<open>A machine after reset: every register reads zero, nothing has been written, and
  every stimulus port FIFO is ready at every read.\<close>

definition machine0 :: machine where
  "machine0 = \<lparr>regs = (\<lambda>_. 0), wlog = [], fifo_ready = (\<lambda>_ _. 1), polls = 0\<rparr>"

text \<open>The ITM is enabled and \<open>ter\<close> is the port-enable mask.\<close>

definition machine_itm :: "u32 \<Rightarrow> u32 \<Rightarrow> machine" where
  "machine_itm tcr ter = machine0\<lparr>regs := (\<lambda>_. 0)(ITM_TCR := tcr, ITM_TER := ter)\<rparr>"

definition ITMOptions0 :: ITMOptions where
  "ITMOptions0 = \<lparr>TraceBusID = 1, GlobalTimestampFrequency = ITMGlobalTimestampFrequencyDisabled,
     LocalTimestampPrescaler = ITMLocalTimestampPrescalerNoPrescaling,
     EnableLocalTimestamp = False, ForwardDWT = False, EnableSyncPacket = False,
     EnabledStimulusPorts = 0\<rparr>"


definition DWTOptions1 :: DWTOptions where
  "DWTOptions1 = \<lparr>FoldedInstructionCounterEvent = True, LSUCounterEvent = False,
     SleepCounterEvent = True, ExceptionOverheadCounterEvent = False, CPICounterEvent = False,
     ExceptionTrace = True, PCSampling = True, SyncTap = DWTSyncTap26,
     CycleTap = DWTCycleTap10, SamplingPrescaler = 16\<rparr>"

definition TpiuOptions1 :: TpiuOptions where
  "TpiuOptions1 = \<lparr>Protocol = TpiuProtocolSwoUart, FormattingEnabled = False,
     SwoPrescaler = 8, TracePortWidth = 4\<rparr>"

definition TpiuOptions_w0 :: TpiuOptions where
  "TpiuOptions_w0 = \<lparr>Protocol = TpiuProtocolParallel, FormattingEnabled = True,
     SwoPrescaler = 1, TracePortWidth = 0\<rparr>"

definition TpiuOptions_w40 :: TpiuOptions where
  "TpiuOptions_w40 = \<lparr>Protocol = TpiuProtocolParallel, FormattingEnabled = True,
     SwoPrescaler = 1, TracePortWidth = 40\<rparr>"

section \<open>Basic facts\<close>

lemma regs_store: "regs (store r v s) r' = (if r' = r then v else regs s r')"
  by (simp add: store_def)

lemma wlog_store: "wlog (store r v s) = wlog s @ [(r, W32 v)]"
  by (simp add: store_def)

lemma unat_ucast_u8: "unat (ucast (w::u8) :: u32) = unat w"
proof -
  have "unat w < 2 ^ 32"
    using unsigned_less [of w, where 'a = nat] by simp
  then show ?thesis
    by (simp add: unsigned_ucast_eq take_bit_nat_eq_self)
qed

lemma ucast_pred: "p \<noteq> 0 \<Longrightarrow> (ucast (p::u8) - 1 :: u32) = ucast (p - 1)"
proof -
  assume p: "p \<noteq> 0"
  have q: "(ucast p :: u32) \<noteq> 0"
  proof
    assume "(ucast p :: u32) = 0"
    then have "unat (ucast p :: u32) = 0"
      by simp
    then have "unat p = 0"
      by (simp only: unat_ucast_u8)
    with p show False
      by (simp add: unat_eq_0)
  qed
  have "unat (ucast p - 1 :: u32) = unat (ucast (p - 1) :: u32)"
    using p q by (simp add: unat_minus_one unat_ucast_u8)
  then show ?thesis
    by (simp only: word_unat_eq_iff)
qed

lemma bit_bool_int: "bit (bool_int c) n \<longleftrightarrow> c \<and> n = 0"
  by (simp add: bool_int_def bit_1_iff)

lemma and_3: "bit ((x::u32) AND 3) n \<longleftrightarrow> n < 2 \<and> bit x n"
proof -
  have e: "(3::u32) = mask 2"
    by (simp add: mask_eq_exp_minus_1)
  show ?thesis
    unfolding e bit_and_iff bit_mask_iff by auto
qed


lemma u8_cases4:
  assumes "unat (c::u8) < 4"
  shows "c = 0 \<or> c = 1 \<or> c = 2 \<or> c = 3"
proof -
  from assms have "unat c = 0 \<or> unat c = 1 \<or> unat c = 2 \<or> unat c = 3"
    by arith
  then show ?thesis
    by (auto simp add: word_unat_eq_iff [of c])
qed

lemma u8_above3:
  assumes "3 < unat (c::u8)"
  shows "c \<noteq> 0 \<and> c \<noteq> 1 \<and> c \<noteq> 2 \<and> c \<noteq> 3"
  using assms by auto

section \<open>ITM: setup and the port guard\<close>

lemma ITMENA_bit0: "(x AND ITM_TCR_ITMENA_Msk \<noteq> 0) = bit (x::u32) 0"
  by (simp add: ITM_TCR_ITMENA_Msk_def and_one_eq bit_0 mod2_eq_if)

lemma shl_int_one:
  "shl_int 1 (uint (port::u8)) = (if unat port < 32 then Some (2 ^ unat port) else None)"
proof -
  have "uint port < 32 \<longleftrightarrow> unat port < 32"
    using nat_less_iff [of "uint port" 32] by simp
  then show ?thesis
    by (simp add: shl_int_def)
qed

lemma shl_mod32_one: "shl_mod32 1 (uint (port::u8)) = Some (2 ^ (unat port mod 32))"
proof -
  have "nat (uint port mod 32) = nat (uint port) mod 32"
    by (simp add: nat_mod_distrib del: nat_uint_eq)
  then show ?thesis
    by (simp add: shl_mod32_def)
qed

lemma ITMIsPortEnabled_eq:
  "ITMIsPortEnabled port s =
    (if bit (regs s ITM_TCR) 0
     then (if unat port < 32 then Some (bit (regs s ITM_TER) (unat port)) else None)
     else Some False)"
  by (simp add: ITMIsPortEnabled_def ITMIsPortEnabled_on_def load_def ITMENA_bit0 shl_int_one
        and_exp_eq_0_iff_not_bit)

text \<open>
  C1 (the code does not do this): after \<^verbatim>\<open>ITMSetup(options)\<close> the port-enable register
  is supposed to equal \<^verbatim>\<open>options->EnabledStimulusPorts\<close>. The function stores the
  constant \<^verbatim>\<open>0xFFFFFFFF\<close> instead and never reads the field: for the options record
  whose mask is 0, the register reads \<^verbatim>\<open>0xFFFFFFFF\<close> afterwards.
\<close>

theorem ITMSetup_ignores_EnabledStimulusPorts:
  "EnabledStimulusPorts ITMOptions0 = 0 \<and>
   regs (ITMSetup ITMOptions0 machine0) ITM_TER = 0xFFFFFFFF"
  by (simp add: ITMOptions0_def ITMSetup_def Let_def regs_store)

text \<open>
  C2: for a port number below 32, \<^verbatim>\<open>ITMIsPortEnabled(port)\<close> returns true exactly when
  bit 0 of \<^verbatim>\<open>ITM->TCR\<close> (the global ITM enable) and bit \<open>port\<close> of \<^verbatim>\<open>ITM->TER\<close> are
  both set. The result is a function of these two register values and of the port alone,
  and the function returns a value only: it has no state to return.
\<close>

theorem ITMIsPortEnabled_iff:
  "unat port < 32 \<Longrightarrow>
   ITMIsPortEnabled port s = Some (bit (regs s ITM_TCR) 0 \<and> bit (regs s ITM_TER) (unat port))"
  by (simp add: ITMIsPortEnabled_eq)

theorem ITMIsPortEnabled_iff_witness:
  "unat (5::u8) < 32 \<and>
   ITMIsPortEnabled 5 (machine_itm 1 0x20) = Some True \<and>
   ITMIsPortEnabled 5 (machine_itm 1 0x10) = Some False \<and>
   ITMIsPortEnabled 5 (machine_itm 0 0x20) = Some False"
  using ITMIsPortEnabled_iff [of 5 "machine_itm 1 0x20"]
        ITMIsPortEnabled_iff [of 5 "machine_itm 1 0x10"]
        ITMIsPortEnabled_iff [of 5 "machine_itm 0 0x20"]
  by (simp add: machine_itm_def machine0_def)

section \<open>ITM: stimulus port writes\<close>

lemma bytes_u16:
  "ucast (le_u16 b0 b1) = b0" "ucast (drop_bit 8 (le_u16 b0 b1)) = b1"
  unfolding le_u16_def
  by (rule bit_eqI; auto simp add: bit_simps dest: bit_imp_le_length)+

lemma bytes_u32:
  "ucast (le_u32 b0 b1 b2 b3) = b0" "ucast (drop_bit 8 (le_u32 b0 b1 b2 b3)) = b1"
  "ucast (drop_bit 16 (le_u32 b0 b1 b2 b3)) = b2" "ucast (drop_bit 24 (le_u32 b0 b1 b2 b3)) = b3"
  unfolding le_u32_def
  by (rule bit_eqI; auto simp add: bit_simps dest: bit_imp_le_length)+

lemma memcpy_u32_take:
  assumes "4 \<le> length buf8"
  shows "\<exists>v. memcpy_u32 buf8 = Some v \<and> access_bytes (W32 v) = take 4 buf8"
proof -
  from assms obtain b0 r0 where 0: "buf8 = b0 # r0" and "3 \<le> length r0"
    by (cases buf8) auto
  then obtain b1 r1 where 1: "r0 = b1 # r1" and "2 \<le> length r1"
    by (cases r0) auto
  then obtain b2 r2 where 2: "r1 = b2 # r2" and "1 \<le> length r2"
    by (cases r1) auto
  then obtain b3 r3 where 3: "r2 = b3 # r3"
    by (cases r2) auto
  show ?thesis
    by (simp add: 0 1 2 3 memcpy_u32_def bytes_u32)
qed

lemma memcpy_u16_take:
  assumes "2 \<le> length buf8"
  shows "\<exists>v. memcpy_u16 buf8 = Some v \<and> access_bytes (W16 v) = take 2 buf8"
proof -
  from assms obtain b0 r0 where 0: "buf8 = b0 # r0" and "1 \<le> length r0"
    by (cases buf8) auto
  then obtain b1 r1 where 1: "r0 = b1 # r1"
    by (cases r0) auto
  show ?thesis
    by (simp add: 0 1 memcpy_u16_def bytes_u16)
qed

lemma deref_u8_take:
  assumes "1 \<le> length buf8"
  shows "\<exists>v. deref_u8 buf8 = Some v \<and> access_bytes (W8 v) = take 1 buf8"
  using assms by (cases buf8) (simp_all add: deref_u8_def)

lemma fifo_live_cong: "fifo_ready s' = fifo_ready s \<Longrightarrow> fifo_live port s' = fifo_live port s"
  by (simp add: fifo_live_def)

lemma emitted_refl: "emitted port s [] s"
  by (simp add: emitted_def)

lemma emitted_trans:
  "emitted port s xs s1 \<Longrightarrow> emitted port s1 ys s2 \<Longrightarrow> emitted port s (xs @ ys) s2"
  by (simp add: emitted_def)

lemma emitted_stim_write: "emitted port s [a] (stim_write port a s)"
  by (simp add: emitted_def stim_write_def)

lemma emitted_live: "emitted port s xs s' \<Longrightarrow> fifo_live port s' = fifo_live port s"
  by (simp add: emitted_def fifo_live_def)

lemma wait_fifo_at:
  "fifo_ready s port (polls s + k) \<noteq> 0 \<Longrightarrow>
   \<exists>n\<le>k. wait_fifo port s = Some (s\<lparr>polls := polls s + Suc n\<rparr>)"
proof (induction k arbitrary: s)
  case 0
  then have "wait_fifo port s = Some (stim_tick s)"
    by (subst wait_fifo.simps) (simp add: stim_status_def)
  then show ?case
    by (simp add: stim_tick_def)
next
  case (Suc k)
  show ?case
  proof (cases "stim_status port s = 0")
    case False
    then have "wait_fifo port s = Some (s\<lparr>polls := polls s + Suc 0\<rparr>)"
      by (subst wait_fifo.simps) (simp add: stim_tick_def)
    then show ?thesis
      by blast
  next
    case True
    then have w: "wait_fifo port s = wait_fifo port (stim_tick s)"
      by (subst wait_fifo.simps) simp
    from Suc.prems have "fifo_ready (stim_tick s) port (polls (stim_tick s) + k) \<noteq> 0"
      by (simp add: stim_tick_def)
    from Suc.IH [OF this] obtain n where "n \<le> k"
      and "wait_fifo port (stim_tick s) = Some (stim_tick s\<lparr>polls := polls (stim_tick s) + Suc n\<rparr>)"
      by blast
    then have "Suc n \<le> Suc k" and "wait_fifo port s = Some (s\<lparr>polls := polls s + Suc (Suc n)\<rparr>)"
      by (simp_all add: w stim_tick_def)
    then show ?thesis
      by blast
  qed
qed

lemma wait_fifo_live:
  assumes "fifo_live port s"
  shows "\<exists>s1. wait_fifo port s = Some s1 \<and> emitted port s [] s1"
proof -
  from assms obtain k where "fifo_ready s port (polls s + k) \<noteq> 0"
    unfolding fifo_live_def by blast
  from wait_fifo_at [OF this] obtain n where "wait_fifo port s = Some (s\<lparr>polls := polls s + Suc n\<rparr>)"
    by blast
  then show ?thesis
    by (simp add: emitted_def)
qed

text \<open>One pass of a loop body: wait, then write.\<close>

lemma wait_then_write:
  assumes "fifo_live port s"
  shows "\<exists>s1. wait_fifo port s = Some s1 \<and> emitted port s [a] (stim_write port a s1)"
proof -
  from wait_fifo_live [OF assms] obtain s1 where w: "wait_fifo port s = Some s1"
    and e: "emitted port s [] s1"
    by blast
  from emitted_trans [OF e emitted_stim_write [of port s1 a]] w show ?thesis
    by simp
qed


lemma ITMWriteBuffer_bytes_emits:
  "fifo_live port s \<Longrightarrow> sz \<le> length buf8 \<Longrightarrow>
   \<exists>s'. ITMWriteBuffer_bytes port buf8 sz s = Some s' \<and>
        emitted port s (map W8 (take sz buf8)) s'"
proof (induction sz arbitrary: buf8 s)
  case 0
  show ?case
    by (subst ITMWriteBuffer_bytes.simps) (simp add: emitted_refl)
next
  case (Suc sz)
  from Suc.prems(2) obtain b rest where buf: "buf8 = b # rest" and len: "sz \<le> length rest"
    by (cases buf8) auto
  from wait_then_write [OF Suc.prems(1), of "W8 b"] obtain s1
    where w: "wait_fifo port s = Some s1"
      and e: "emitted port s [W8 b] (stim_write port (W8 b) s1)"
    by blast
  from emitted_live [OF e] Suc.prems(1) have "fifo_live port (stim_write port (W8 b) s1)"
    by simp
  from Suc.IH [OF this len] obtain s'
    where r: "ITMWriteBuffer_bytes port rest sz (stim_write port (W8 b) s1) = Some s'"
      and e': "emitted port (stim_write port (W8 b) s1) (map W8 (take sz rest)) s'"
    by blast
  have "ITMWriteBuffer_bytes port buf8 (Suc sz) s = Some s'"
    by (subst ITMWriteBuffer_bytes.simps) (simp add: w buf deref_u8_def r)
  moreover from emitted_trans [OF e e'] have "emitted port s (map W8 (take (Suc sz) buf8)) s'"
    by (simp add: buf)
  ultimately show ?case
    by blast
qed


lemma add2_div: "(2 + k) div 2 = Suc (k div 2)" for k :: nat
  by simp

lemma add2_mod2: "(2 + k) mod 2 = k mod 2" for k :: nat
  by simp

lemma ITMWriteBuffer_halves_emits:
  "fifo_live port s \<Longrightarrow> sz \<le> length buf8 \<Longrightarrow>
   \<exists>s' accs. ITMWriteBuffer_halves port buf8 sz s = Some s' \<and>
        emitted port s accs s' \<and>
        map access_width accs = replicate (sz div 2) 16 @ replicate (sz mod 2) 8 \<and>
        concat (map access_bytes accs) = take sz buf8"
proof (induction port buf8 sz s rule: ITMWriteBuffer_halves.induct)
  case (1 port buf8 sz s)
  show ?case
  proof (cases "sz \<ge> 2")
    case False
    from ITMWriteBuffer_bytes_emits [OF "1.prems"] obtain s'
      where r: "ITMWriteBuffer_bytes port buf8 sz s = Some s'"
        and e: "emitted port s (map W8 (take sz buf8)) s'"
      by blast
    from False have h: "ITMWriteBuffer_halves port buf8 sz s = Some s'"
      by (subst ITMWriteBuffer_halves.simps) (simp add: r)
    from False "1.prems"(2) have "length (take sz buf8) = sz" and "sz div 2 = 0" and "sz mod 2 = sz"
      by simp_all
    then have "map access_width (map W8 (take sz buf8)) = replicate (sz div 2) 16 @ replicate (sz mod 2) 8"
      by (simp add: comp_def map_replicate_const)
    moreover have "concat (map access_bytes (map W8 (take sz buf8))) = take sz buf8"
      by (induction "take sz buf8" arbitrary: sz buf8) (simp_all add: comp_def)
    ultimately show ?thesis
      using h e by blast
  next
    case True
    with "1.prems"(2) have "2 \<le> length buf8"
      by simp
    from memcpy_u16_take [OF this] obtain v where m: "memcpy_u16 buf8 = Some v"
      and b: "access_bytes (W16 v) = take 2 buf8"
      by blast
    from wait_then_write [OF "1.prems"(1), of "W16 v"] obtain s1
      where w: "wait_fifo port s = Some s1"
        and e: "emitted port s [W16 v] (stim_write port (W16 v) s1)"
      by blast
    from emitted_live [OF e] "1.prems"(1) have live: "fifo_live port (stim_write port (W16 v) s1)"
      by simp
    from True "1.prems"(2) have len: "sz - 2 \<le> length (drop 2 buf8)"
      by simp
    from "1.IH" [OF True m m w live len] obtain s' accs
      where r: "ITMWriteBuffer_halves port (drop 2 buf8) (sz - 2) (stim_write port (W16 v) s1) = Some s'"
        and e': "emitted port (stim_write port (W16 v) s1) accs s'"
        and wd: "map access_width accs = replicate ((sz - 2) div 2) 16 @ replicate ((sz - 2) mod 2) 8"
        and bs: "concat (map access_bytes accs) = take (sz - 2) (drop 2 buf8)"
      by blast
    from True have h: "ITMWriteBuffer_halves port buf8 sz s = Some s'"
      by (subst ITMWriteBuffer_halves.simps) (simp add: m w r)
    from True obtain k where k: "sz = 2 + k"
      by (auto dest: le_Suc_ex)
    then have k': "sz - 2 = k"
      by simp
    have "map access_width (W16 v # accs) =
        replicate (Suc (k div 2)) 16 @ replicate (k mod 2) 8"
      by (simp add: wd k')
    then have "map access_width (W16 v # accs) = replicate (sz div 2) 16 @ replicate (sz mod 2) 8"
      by (simp only: k add2_div add2_mod2)
    moreover have "concat (map access_bytes (W16 v # accs)) = take sz buf8"
    proof -
      have "concat (map access_bytes (W16 v # accs)) = take 2 buf8 @ take (sz - 2) (drop 2 buf8)"
        by (simp add: b bs del: access_bytes.simps)
      also have "\<dots> = take (2 + (sz - 2)) buf8"
        by (simp only: take_add)
      also from True have "2 + (sz - 2) = sz"
        by simp
      finally show ?thesis .
    qed
    moreover from emitted_trans [OF e e'] have "emitted port s (W16 v # accs) s'"
      by simp
    ultimately show ?thesis
      using h by blast
  qed
qed

lemma add4_div: "(4 + k) div 4 = Suc (k div 4)" for k :: nat
  by simp

lemma add4_mod4: "(4 + k) mod 4 = k mod 4" for k :: nat
  by simp

lemma add4_mod2: "(4 + k) mod 2 = k mod 2" for k :: nat
proof -
  have "(4 + k) mod 2 = (2 * 2 + k) mod 2"
    by simp
  also have "\<dots> = k mod 2"
    by (rule mod_mult_self4)
  finally show ?thesis .
qed

lemma ITMWriteBuffer_words_emits:
  "fifo_live port s \<Longrightarrow> sz \<le> length buf8 \<Longrightarrow>
   \<exists>s' accs. ITMWriteBuffer_words port buf8 sz s = Some s' \<and>
        emitted port s accs s' \<and>
        map access_width accs =
          replicate (sz div 4) 32 @ replicate (sz mod 4 div 2) 16 @ replicate (sz mod 2) 8 \<and>
        concat (map access_bytes accs) = take sz buf8"
proof (induction port buf8 sz s rule: ITMWriteBuffer_words.induct)
  case (1 port buf8 sz s)
  show ?case
  proof (cases "sz \<ge> 4")
    case False
    from ITMWriteBuffer_halves_emits [OF "1.prems"] obtain s' accs
      where r: "ITMWriteBuffer_halves port buf8 sz s = Some s'"
        and e: "emitted port s accs s'"
        and wd: "map access_width accs = replicate (sz div 2) 16 @ replicate (sz mod 2) 8"
        and bs: "concat (map access_bytes accs) = take sz buf8"
      by blast
    from False have h: "ITMWriteBuffer_words port buf8 sz s = Some s'"
      by (subst ITMWriteBuffer_words.simps) (simp add: r)
    from False have "sz div 4 = 0" and "sz mod 4 = sz"
      by simp_all
    with wd have "map access_width accs =
        replicate (sz div 4) 32 @ replicate (sz mod 4 div 2) 16 @ replicate (sz mod 2) 8"
      by simp
    with h e bs show ?thesis
      by blast
  next
    case True
    with "1.prems"(2) have "4 \<le> length buf8"
      by simp
    from memcpy_u32_take [OF this] obtain v where m: "memcpy_u32 buf8 = Some v"
      and b: "access_bytes (W32 v) = take 4 buf8"
      by blast
    from wait_then_write [OF "1.prems"(1), of "W32 v"] obtain s1
      where w: "wait_fifo port s = Some s1"
        and e: "emitted port s [W32 v] (stim_write port (W32 v) s1)"
      by blast
    from emitted_live [OF e] "1.prems"(1) have live: "fifo_live port (stim_write port (W32 v) s1)"
      by simp
    from True "1.prems"(2) have len: "sz - 4 \<le> length (drop 4 buf8)"
      by simp
    from "1.IH" [OF True m w live len] obtain s' accs
      where r: "ITMWriteBuffer_words port (drop 4 buf8) (sz - 4) (stim_write port (W32 v) s1) = Some s'"
        and e': "emitted port (stim_write port (W32 v) s1) accs s'"
        and wd: "map access_width accs =
           replicate ((sz - 4) div 4) 32 @ replicate ((sz - 4) mod 4 div 2) 16 @ replicate ((sz - 4) mod 2) 8"
        and bs: "concat (map access_bytes accs) = take (sz - 4) (drop 4 buf8)"
      by blast
    from True have h: "ITMWriteBuffer_words port buf8 sz s = Some s'"
      by (subst ITMWriteBuffer_words.simps) (simp add: m w r)
    from True obtain k where k: "sz = 4 + k"
      by (auto dest: le_Suc_ex)
    then have k': "sz - 4 = k"
      by simp
    have "map access_width (W32 v # accs) =
        replicate (Suc (k div 4)) 32 @ replicate (k mod 4 div 2) 16 @ replicate (k mod 2) 8"
      by (simp add: wd k')
    then have "map access_width (W32 v # accs) =
        replicate (sz div 4) 32 @ replicate (sz mod 4 div 2) 16 @ replicate (sz mod 2) 8"
      by (simp only: k add4_div add4_mod4 add4_mod2)
    moreover have "concat (map access_bytes (W32 v # accs)) = take sz buf8"
    proof -
      have "concat (map access_bytes (W32 v # accs)) = take 4 buf8 @ take (sz - 4) (drop 4 buf8)"
        by (simp add: b bs del: access_bytes.simps)
      also have "\<dots> = take (4 + (sz - 4)) buf8"
        by (simp only: take_add)
      also from True have "4 + (sz - 4) = sz"
        by simp
      finally show ?thesis .
    qed
    moreover from emitted_trans [OF e e'] have "emitted port s (W32 v # accs) s'"
      by simp
    ultimately show ?thesis
      using h by blast
  qed
qed

lemma half_small: "m < 4 \<Longrightarrow> m div 2 = (if 2 \<le> m then 1 else 0)" for m :: nat
  by (auto simp add: div_eq_0_iff)

lemma replicate_halves:
  "replicate (sz mod 4 div 2) (16::nat) = (if 2 \<le> sz mod 4 then [16] else [])"
proof -
  have "sz mod 4 < 4"
    by simp
  from half_small [OF this] show ?thesis
    by simp
qed

lemma replicate_bytes: "replicate (sz mod 2) (8::nat) = (if odd sz then [8] else [])"
  by (simp add: mod2_eq_if)

lemma ITMWriteBuffer_words_empty: "ITMWriteBuffer_words port buf8 0 s = Some s"
  by (simp add: ITMWriteBuffer_words.simps [of _ _ 0] ITMWriteBuffer_halves.simps [of _ _ 0]
        ITMWriteBuffer_bytes.simps [of _ _ 0])




text \<open>
  C3: when \<^verbatim>\<open>ITMIsPortEnabled(port)\<close> is false on entry, each of \<^verbatim>\<open>ITMWrite8\<close>,
  \<^verbatim>\<open>ITMWrite16\<close>, \<^verbatim>\<open>ITMWrite32\<close> and \<^verbatim>\<open>ITMWriteBuffer\<close> returns, and returns the machine
  it was given: no register changes, the store log gains no entry (so the port register is
  not written), and not even the FIFO status is read. The functions have no error result.
\<close>

theorem ITMWrite_disabled:
  assumes "ITMIsPortEnabled port s = Some False"
  shows "ITMWrite8 port v8 s = Some s \<and> ITMWrite16 port v16 s = Some s \<and>
         ITMWrite32 port v32 s = Some s \<and> ITMWriteBuffer port buffer sz s = Some s"
  by (simp add: ITMWrite8_def ITMWrite16_def ITMWrite32_def ITMWriteBuffer_def assms)

theorem ITMWrite_disabled_witness:
  "ITMIsPortEnabled 5 (machine_itm 1 0x10) = Some False \<and>
   ITMWrite8 5 0x58 (machine_itm 1 0x10) = Some (machine_itm 1 0x10) \<and>
   ITMWrite16 5 0x5859 (machine_itm 1 0x10) = Some (machine_itm 1 0x10) \<and>
   ITMWrite32 5 0x58595A5B (machine_itm 1 0x10) = Some (machine_itm 1 0x10) \<and>
   ITMWriteBuffer 5 [1, 2, 3] 3 (machine_itm 1 0x10) = Some (machine_itm 1 0x10)"
proof -
  have d: "ITMIsPortEnabled 5 (machine_itm 1 0x10) = Some False"
    by (simp add: ITMIsPortEnabled_eq machine_itm_def machine0_def)
  from ITMWrite_disabled [OF d, of "0x58" "0x5859" "0x58595A5B" "[1, 2, 3]" 3] d
  show ?thesis
    by (rule conjI [rotated])
qed

text \<open>
  C4: on an enabled port whose FIFO drains, for a buffer holding at least \<open>sz\<close> bytes,
  \<^verbatim>\<open>ITMWriteBuffer\<close> returns, having written to the port register and to nothing else:
  \<open>sz div 4\<close> 32-bit accesses, then one 16-bit access if \<open>sz mod 4 \<ge> 2\<close>, then one 8-bit
  access if \<open>sz\<close> is odd; the bytes of these accesses, in the order sent, are the first
  \<open>sz\<close> bytes of the buffer. For 7 bytes the widths are 32, 16, 8; for 0 bytes the machine
  is returned as it was.
\<close>

theorem ITMWriteBuffer_chunks:
  assumes "ITMIsPortEnabled port s = Some True"
    and "fifo_live port s"
    and "sz \<le> length buffer"
  shows "\<exists>s' accs. ITMWriteBuffer port buffer sz s = Some s' \<and>
        wlog s' = wlog s @ map (Pair (ITM_PORT port)) accs \<and>
        regs s' = regs s \<and>
        map access_width accs =
          replicate (sz div 4) 32 @ (if 2 \<le> sz mod 4 then [16] else []) @ (if odd sz then [8] else []) \<and>
        concat (map access_bytes accs) = take sz buffer \<and>
        (sz = 7 \<longrightarrow> map access_width accs = [32, 16, 8]) \<and>
        (sz = 0 \<longrightarrow> s' = s)"
proof -
  from ITMWriteBuffer_words_emits [OF assms(2,3)] obtain s' accs
    where r: "ITMWriteBuffer_words port buffer sz s = Some s'"
      and e: "emitted port s accs s'"
      and wd: "map access_width accs =
          replicate (sz div 4) 32 @ replicate (sz mod 4 div 2) 16 @ replicate (sz mod 2) 8"
      and bs: "concat (map access_bytes accs) = take sz buffer"
    by blast
  show ?thesis
  proof (intro exI conjI impI)
    show "ITMWriteBuffer port buffer sz s = Some s'"
      by (simp add: ITMWriteBuffer_def assms(1) r)
    show "wlog s' = wlog s @ map (Pair (ITM_PORT port)) accs" and "regs s' = regs s"
      using e by (simp_all add: emitted_def)
    show "map access_width accs =
          replicate (sz div 4) 32 @ (if 2 \<le> sz mod 4 then [16] else []) @ (if odd sz then [8] else [])"
      by (simp only: wd replicate_halves replicate_bytes)
    show "concat (map access_bytes accs) = take sz buffer"
      by (fact bs)
    show "map access_width accs = [32, 16, 8]" if "sz = 7"
      unfolding wd that by simp
    show "s' = s" if "sz = 0"
      using r unfolding that ITMWriteBuffer_words_empty by simp
  qed
qed

theorem ITMWriteBuffer_chunks_witness:
  "ITMIsPortEnabled 5 (machine_itm 1 0x20) = Some True \<and>
   fifo_live 5 (machine_itm 1 0x20) \<and>
   (\<exists>s' accs. ITMWriteBuffer 5 [1, 2, 3, 4, 5, 6, 7] 7 (machine_itm 1 0x20) = Some s' \<and>
      wlog s' = map (Pair (ITM_PORT 5)) accs \<and>
      map access_width accs = [32, 16, 8] \<and>
      concat (map access_bytes accs) = [1, 2, 3, 4, 5, 6, 7])"
proof -
  have en: "ITMIsPortEnabled 5 (machine_itm 1 0x20) = Some True"
    by (simp add: ITMIsPortEnabled_eq machine_itm_def machine0_def)
  have live: "fifo_live 5 (machine_itm 1 0x20)"
    by (simp add: fifo_live_def machine_itm_def machine0_def)
  have len: "7 \<le> length [1, 2, 3, 4, 5, 6, 7 :: u8]"
    by simp
  from ITMWriteBuffer_chunks [OF en live len] obtain s' accs
    where r: "ITMWriteBuffer 5 [1, 2, 3, 4, 5, 6, 7] 7 (machine_itm 1 0x20) = Some s'"
      and l: "wlog s' = wlog (machine_itm 1 0x20) @ map (Pair (ITM_PORT 5)) accs"
      and w: "(7::nat) = 7 \<longrightarrow> map access_width accs = [32, 16, 8]"
      and b: "concat (map access_bytes accs) = take 7 [1, 2, 3, 4, 5, 6, 7]"
    by (elim exE conjE) (rule that; assumption)
  have l0: "wlog (machine_itm 1 0x20) = []"
    by (simp add: machine_itm_def machine0_def)
  show ?thesis
  proof (intro conjI exI)
    show "ITMIsPortEnabled 5 (machine_itm 1 0x20) = Some True"
      by (fact en)
    show "fifo_live 5 (machine_itm 1 0x20)"
      by (fact live)
    show "ITMWriteBuffer 5 [1, 2, 3, 4, 5, 6, 7] 7 (machine_itm 1 0x20) = Some s'"
      by (fact r)
    show "wlog s' = map (Pair (ITM_PORT 5)) accs"
      by (simp only: l l0 append_Nil)
    show "map access_width accs = [32, 16, 8]"
      using w by simp
    show "concat (map access_bytes accs) = [1, 2, 3, 4, 5, 6, 7]"
      unfolding b by simp
  qed
qed

section \<open>ITM: the port guard above port 31\<close>

text \<open>
  C10: for a port number from 32 to 255 the guard shifts \<^verbatim>\<open>1 << port\<close> by 32 or more,
  so its result is not defined whenever the shift is evaluated (the ITM is enabled); the
  guard is defined in every register state exactly for the ports below 32. On a shifter
  that takes the count modulo 32 the same body answers for port \<open>N\<close> what it answers for
  port \<open>N mod 32\<close>, so a port above 31 is not reported as disabled.
\<close>

theorem ITMIsPortEnabled_defined_iff:
  "((\<forall>s. ITMIsPortEnabled port s \<noteq> None) \<longleftrightarrow> unat port < 32) \<and>
   (32 \<le> unat port \<longrightarrow> (ITMIsPortEnabled port s = None \<longleftrightarrow> bit (regs s ITM_TCR) 0)) \<and>
   ITMIsPortEnabled_on shl_mod32 port s =
     Some (bit (regs s ITM_TCR) 0 \<and> bit (regs s ITM_TER) (unat port mod 32))"
proof (intro conjI impI)
  show "(\<forall>s. ITMIsPortEnabled port s \<noteq> None) \<longleftrightarrow> unat port < 32"
  proof
    assume a: "\<forall>s. ITMIsPortEnabled port s \<noteq> None"
    show "unat port < 32"
    proof (rule ccontr)
      assume "\<not> unat port < 32"
      then have "ITMIsPortEnabled port (machine0\<lparr>regs := (\<lambda>_. 1)\<rparr>) = None"
        by (simp add: ITMIsPortEnabled_eq)
      with a show False by blast
    qed
  next
    assume "unat port < 32"
    then show "\<forall>s. ITMIsPortEnabled port s \<noteq> None"
      by (auto simp: ITMIsPortEnabled_eq)
  qed
next
  assume "32 \<le> unat port"
  then show "ITMIsPortEnabled port s = None \<longleftrightarrow> bit (regs s ITM_TCR) 0"
    by (simp add: ITMIsPortEnabled_eq)
next
  show "ITMIsPortEnabled_on shl_mod32 port s =
     Some (bit (regs s ITM_TCR) 0 \<and> bit (regs s ITM_TER) (unat port mod 32))"
    by (simp add: ITMIsPortEnabled_on_def load_def ITMENA_bit0 shl_mod32_one
          and_exp_eq_0_iff_not_bit)
qed

theorem ITMIsPortEnabled_defined_iff_witness:
  "32 \<le> unat (37::u8) \<and>
   \<not> (\<forall>s. ITMIsPortEnabled 37 s \<noteq> None) \<and>
   ITMIsPortEnabled 37 (machine_itm 1 0x20) = None \<and>
   ITMIsPortEnabled_on shl_mod32 37 (machine_itm 1 0x20) = Some True"
  using ITMIsPortEnabled_defined_iff [of 37 "machine_itm 1 0x20"]
  by (simp add: machine_itm_def machine0_def)

section \<open>DWT: the control word\<close>

lemma DWTSetup_eq:
  "DWTSetup options s =
     store DWT_CTRL (DWTSetup_ctrl options)
       (store DWT_LAR 0xC5ACCE55
         (store CoreDebug_DEMCR (regs s CoreDebug_DEMCR OR CoreDebug_DEMCR_TRCENA_Msk) s))"
  by (simp add: DWTSetup_def DWTSetup_ctrl_def Let_def load_def or.assoc)

lemma DWTSetup_CTRL: "regs (DWTSetup options s) DWT_CTRL = DWTSetup_ctrl options"
  by (simp add: DWTSetup_eq regs_store)


lemma bit_flag: "bit (push_bit k (bool_int c)) n \<longleftrightarrow> c \<and> n = k \<and> k < 32"
  by (auto simp add: bit_push_bit_iff bit_bool_int dest: bit_imp_le_length)

lemma bit_presc:
  "p \<noteq> 0 \<Longrightarrow>
   bit (push_bit 1 (ucast (p::u8) - 1 :: u32)) n \<longleftrightarrow> 1 \<le> n \<and> n < 9 \<and> bit (p - 1) (n - 1)"
  unfolding bit_push_bit_iff ucast_pred bit_ucast_iff
  by (auto dest: bit_imp_le_length)


text \<open>Both tap selectors are masked with 3, so each is OR-ed in as a field two bits wide:
  the sync tap at bits 10 and 11, the cycle tap at bits 9 and 10.\<close>

lemma bit_synctap:
  "bit (push_bit 10 ((t::u32) AND 3)) n \<longleftrightarrow> 10 \<le> n \<and> n < 12 \<and> bit t (n - 10)"
  unfolding bit_push_bit_iff and_3
  by auto

lemma bit_cyctap:
  "bit (push_bit 9 ((t::u32) AND 3)) n \<longleftrightarrow> 9 \<le> n \<and> n < 11 \<and> bit t (n - 9)"
  unfolding bit_push_bit_iff and_3
  by auto

lemmas DWT_CTRL_defs =
  DWT_CTRL_FOLDEVTENA_Pos_def DWT_CTRL_LSUEVTENA_Pos_def DWT_CTRL_SLEEPEVTENA_Pos_def
  DWT_CTRL_EXCEVTENA_Pos_def DWT_CTRL_CPIEVTENA_Pos_def DWT_CTRL_EXCTRCENA_Pos_def
  DWT_CTRL_PCSAMPLENA_Pos_def DWT_CTRL_SYNCTAP_Pos_def DWT_CTRL_CYCTAP_Pos_def
  DWT_CTRL_POSTPRESET_Pos_def DWT_CTRL_CYCCNTENA_Msk_def

text \<open>Every bit of the control word, when the prescaler is not 0.\<close>

lemma bit_DWTSetup_ctrl:
  assumes "SamplingPrescaler options \<noteq> 0"
  shows "bit (DWTSetup_ctrl options) n \<longleftrightarrow>
     (n = 21 \<and> FoldedInstructionCounterEvent options) \<or>
     (n = 20 \<and> LSUCounterEvent options) \<or>
     (n = 19 \<and> SleepCounterEvent options) \<or>
     (n = 18 \<and> ExceptionOverheadCounterEvent options) \<or>
     (n = 17 \<and> CPICounterEvent options) \<or>
     (n = 16 \<and> ExceptionTrace options) \<or>
     (n = 12 \<and> PCSampling options) \<or>
     (10 \<le> n \<and> n < 12 \<and> bit (SyncTap options) (n - 10)) \<or>
     (9 \<le> n \<and> n < 11 \<and> bit (CycleTap options) (n - 9)) \<or>
     (1 \<le> n \<and> n < 9 \<and> bit (SamplingPrescaler options - 1) (n - 1)) \<or>
     n = 0"
  unfolding DWTSetup_ctrl_def DWT_CTRL_defs bit_or_iff bit_flag bit_presc [OF assms]
    bit_synctap bit_cyctap
  by (auto simp add: bit_1_iff)


lemma bit_ctrl_low:
  assumes "SamplingPrescaler options \<noteq> 0" and "1 \<le> n" and "n < 9"
  shows "bit (DWTSetup_ctrl options) n \<longleftrightarrow> bit (SamplingPrescaler options - 1) (n - 1)"
  using assms(2,3) by (simp add: bit_DWTSetup_ctrl [OF assms(1)])




lemma prescaler_field:
  assumes "SamplingPrescaler options \<noteq> 0"
  shows "take_bit 4 (drop_bit 1 (DWTSetup_ctrl options)) =
         take_bit 4 (ucast (SamplingPrescaler options - 1))"
proof (rule bit_eqI)
  fix n
  have "n < 4 \<Longrightarrow>
        bit (DWTSetup_ctrl options) (1 + n) \<longleftrightarrow> bit (SamplingPrescaler options - 1) n"
    using bit_ctrl_low [OF assms, of "1 + n"] by simp
  then show "bit (take_bit 4 (drop_bit 1 (DWTSetup_ctrl options))) n \<longleftrightarrow>
        bit (take_bit 4 (ucast (SamplingPrescaler options - 1) :: u32)) n"
    unfolding bit_take_bit_iff bit_drop_bit_eq bit_ucast_iff
    by auto
qed





lemma take_bit_4_small: "unat (p::u8) \<le> 15 \<Longrightarrow> take_bit 4 (ucast p :: u32) = ucast p"
proof -
  assume "unat p \<le> 15"
  then have "unat p < 2 ^ 4"
    by simp
  then have "take_bit 4 (unat p) = unat p"
    by (simp only: take_bit_nat_eq_self)
  then have "take_bit 4 p = p"
    by (metis unsigned_take_bit_eq word_unat_eq_iff)
  then have "bit p n \<Longrightarrow> n < 4" for n
    by (metis bit_take_bit_iff)
  then show ?thesis
    by (auto simp add: bit_eq_iff bit_take_bit_iff bit_ucast_iff)
qed

text \<open>
  C5: for a sampling prescaler \<open>p\<close> from 1 to 16, the four bits of the control word that
  \<^verbatim>\<open>DWTSetup\<close> writes, read from bit \<^verbatim>\<open>DWT_CTRL_POSTPRESET_Pos\<close> on, are the number
  \<open>p - 1\<close>.
\<close>

theorem DWTSetup_prescaler:
  assumes "1 \<le> unat (SamplingPrescaler options)" and "unat (SamplingPrescaler options) \<le> 16"
  shows "unat (take_bit 4 (drop_bit DWT_CTRL_POSTPRESET_Pos (regs (DWTSetup options s) DWT_CTRL)))
           = unat (SamplingPrescaler options) - 1"
proof -
  let ?p = "SamplingPrescaler options"
  from assms(1) have nz: "?p \<noteq> 0"
    by auto
  then have u: "unat (?p - 1) = unat ?p - 1"
    by (rule unat_minus_one)
  with assms(2) have "unat (?p - 1) \<le> 15"
    by simp
  then have "take_bit 4 (ucast (?p - 1) :: u32) = ucast (?p - 1)"
    by (rule take_bit_4_small)
  then have "take_bit 4 (drop_bit 1 (DWTSetup_ctrl options)) = ucast (?p - 1)"
    by (simp only: prescaler_field [OF nz])
  then show ?thesis
    by (simp only: DWTSetup_CTRL DWT_CTRL_POSTPRESET_Pos_def u unat_ucast_u8)
qed

theorem DWTSetup_prescaler_witness:
  "1 \<le> unat (SamplingPrescaler DWTOptions1) \<and> unat (SamplingPrescaler DWTOptions1) \<le> 16 \<and>
   unat (take_bit 4 (drop_bit DWT_CTRL_POSTPRESET_Pos
           (regs (DWTSetup DWTOptions1 machine0) DWT_CTRL))) = 15"
proof -
  have p: "SamplingPrescaler DWTOptions1 = 16"
    by (simp add: DWTOptions1_def)
  have a: "1 \<le> unat (SamplingPrescaler DWTOptions1)"
    and b: "unat (SamplingPrescaler DWTOptions1) \<le> 16"
    by (simp_all add: p)
  show ?thesis
    using a b DWTSetup_prescaler [OF a b, of machine0] by (simp add: p)
qed




section \<open>DWT: comparators\<close>

lemma DWTDisableComparator_eq:
  "unat comparator < 4 \<Longrightarrow>
   DWTDisableComparator comparator s = store (DWT_FUNCTION (unat comparator)) 0 s"
  by (auto dest!: u8_cases4 simp add: DWTDisableComparator_def)

lemma DWTEnableComparator_eq:
  "unat comparator < 4 \<Longrightarrow>
   DWTEnableComparator comparator address ignoreBits emitRange func s =
     store (DWT_FUNCTION (unat comparator))
       ((push_bit DWT_FUNCTION_FUNCTION_Pos (ucast func) AND DWT_FUNCTION_FUNCTION_Msk)
          OR push_bit DWT_FUNCTION_EMITRANGE_Pos (bool_int emitRange))
       (store (DWT_MASK (unat comparator)) (ucast ignoreBits)
         (store (DWT_COMP (unat comparator)) address s))"
  by (auto dest!: u8_cases4 simp add: DWTEnableComparator_def Let_def)

text \<open>
  C7: for a comparator index from 0 to 3, \<^verbatim>\<open>DWTDisableComparator\<close> makes one store, of 0
  to that comparator's function register; every other register, its address and mask
  registers among them, reads as before. So after \<^verbatim>\<open>DWTEnableComparator\<close> followed by
  \<^verbatim>\<open>DWTDisableComparator\<close> on the same index the function register reads 0 and the
  address and mask registers still read what was enabled.
\<close>

theorem DWTDisableComparator_frame:
  assumes "unat comparator < 4"
  shows "regs (DWTDisableComparator comparator s) =
           (regs s)(DWT_FUNCTION (unat comparator) := 0) \<and>
         wlog (DWTDisableComparator comparator s) =
           wlog s @ [(DWT_FUNCTION (unat comparator), W32 0)] \<and>
         regs (DWTDisableComparator comparator s) (DWT_COMP (unat comparator)) =
           regs s (DWT_COMP (unat comparator)) \<and>
         regs (DWTDisableComparator comparator s) (DWT_MASK (unat comparator)) =
           regs s (DWT_MASK (unat comparator)) \<and>
         regs (DWTDisableComparator comparator
                (DWTEnableComparator comparator address ignoreBits emitRange func s))
              (DWT_FUNCTION (unat comparator)) = 0 \<and>
         regs (DWTDisableComparator comparator
                (DWTEnableComparator comparator address ignoreBits emitRange func s))
              (DWT_COMP (unat comparator)) = address \<and>
         regs (DWTDisableComparator comparator
                (DWTEnableComparator comparator address ignoreBits emitRange func s))
              (DWT_MASK (unat comparator)) = ucast ignoreBits"
  by (simp add: DWTDisableComparator_eq [OF assms] DWTEnableComparator_eq [OF assms] store_def)

theorem DWTDisableComparator_frame_witness:
  "unat (1::u8) < 4 \<and>
   regs (DWTDisableComparator 1 (DWTEnableComparator 1 0x20000000 2 True 5 machine0))
     (DWT_FUNCTION 1) = 0 \<and>
   regs (DWTDisableComparator 1 (DWTEnableComparator 1 0x20000000 2 True 5 machine0))
     (DWT_COMP 1) = 0x20000000 \<and>
   regs (DWTDisableComparator 1 (DWTEnableComparator 1 0x20000000 2 True 5 machine0))
     (DWT_MASK 1) = 2"
  using DWTDisableComparator_frame [of 1 machine0 "0x20000000" 2 True 5]
  by simp

text \<open>
  C8: for a comparator index above 3, \<^verbatim>\<open>DWTEnableComparator\<close> and
  \<^verbatim>\<open>DWTDisableComparator\<close> return the machine as it was: no register changes and the
  store log gains no entry. Both are total functions with no error result.
\<close>

theorem DWT_comparator_out_of_range:
  assumes "3 < unat comparator"
  shows "DWTEnableComparator comparator address ignoreBits emitRange func s = s \<and>
         DWTDisableComparator comparator s = s"
  using u8_above3 [OF assms]
  by (simp add: DWTEnableComparator_def DWTDisableComparator_def)

theorem DWT_comparator_out_of_range_witness:
  "3 < unat (7::u8) \<and>
   DWTEnableComparator 7 0x20000000 2 True 5 machine0 = machine0 \<and>
   DWTDisableComparator 7 machine0 = machine0"
  using DWT_comparator_out_of_range [of 7 "0x20000000" 2 True 5 machine0]
  by simp

section \<open>TPIU\<close>

lemma shl_int_width:
  "shl_int 1 (uint (w::u8) - 1) =
     (if 1 \<le> unat w \<and> unat w \<le> 32 then Some (2 ^ (unat w - 1)) else None)"
proof -
  have u: "uint w = int (unat w)"
    by simp
  have r: "(0 \<le> int x - 1 \<and> int x - 1 < 32) \<longleftrightarrow> (1 \<le> x \<and> x \<le> 32)" for x
    by arith
  have n: "nat (int x - 1) = x - 1" for x
    by arith
  show ?thesis
    unfolding shl_int_def u r n push_bit_of_1 ..
qed

lemma shl_on_width:
  assumes "1 \<le> unat (w::u8)" and "unat w \<le> 32"
  shows "shl_on T 1 (uint w - 1) = 2 ^ (unat w - 1)"
  using assms by (simp only: shl_on_def shl_int_width simp_thms if_True option.case)

lemma sint_one: "sint (1::u32) = 1"
  by simp

lemma sub_on_one:
  assumes "sint (a::u32) \<noteq> - (2 ^ 31)"
  shows "sub_on T a 1 = a - 1"
proof -
  have "- (2 ^ 31) \<le> sint a"
    using sint_ge [of a] by simp
  with assms have lo: "- (2 ^ 31) \<le> sint a - 1"
    by arith
  have "sint a < 2 ^ 31"
    using sint_lt [of a] by simp
  then have hi: "sint a - 1 < 2 ^ 31"
    by arith
  from lo hi have "sub_int a 1 = Some (a - 1)"
    by (simp only: sub_int_def sint_one simp_thms if_True)
  then show ?thesis
    by (simp only: sub_on_def option.case)
qed

lemma EnFCont_bit: "bit TPI_FFCR_EnFCont_Msk n \<longleftrightarrow> n = 1"
  unfolding TPI_FFCR_EnFCont_Msk_def bit_push_bit_iff bit_1_iff
  by auto

lemma TpiuSetup_DEMCR:
  "regs (TpiuSetup T options s) CoreDebug_DEMCR =
     regs s CoreDebug_DEMCR OR CoreDebug_DEMCR_TRCENA_Msk"
  by (simp add: TpiuSetup_def Let_def regs_store load_def)

lemma TpiuSetup_ACPR: "regs (TpiuSetup T options s) TPI_ACPR = sub_on T (SwoPrescaler options) 1"
  by (simp add: TpiuSetup_def Let_def regs_store)

lemma TpiuSetup_SPPR: "regs (TpiuSetup T options s) TPI_SPPR = Protocol options"
  by (simp add: TpiuSetup_def Let_def regs_store)

lemma TpiuSetup_CSPSR:
  "regs (TpiuSetup T options s) TPI_CSPSR = shl_on T 1 (uint (TracePortWidth options) - 1)"
  by (simp add: TpiuSetup_def Let_def regs_store)

lemma TpiuSetup_FFCR:
  "regs (TpiuSetup T options s) TPI_FFCR =
     (if FormattingEnabled options
      then regs s TPI_FFCR OR TPI_FFCR_EnFCont_Msk
      else regs s TPI_FFCR AND NOT TPI_FFCR_EnFCont_Msk)"
  by (simp add: TpiuSetup_def Let_def regs_store load_def)

lemma TpiuSetup_wlog:
  "map fst (wlog (TpiuSetup T options s)) =
     map fst (wlog s) @ [CoreDebug_DEMCR, TPI_ACPR, TPI_SPPR, TPI_CSPSR, TPI_FFCR]"
  by (simp add: TpiuSetup_def Let_def wlog_store)

text \<open>
  C9, as the code has it. For every options record \<^verbatim>\<open>TpiuSetup\<close> makes five stores, to
  \<^verbatim>\<open>CoreDebug->DEMCR\<close>, \<^verbatim>\<open>TPI->ACPR\<close>, \<^verbatim>\<open>TPI->SPPR\<close>, \<^verbatim>\<open>TPI->CSPSR\<close> and \<^verbatim>\<open>TPI->FFCR\<close> in
  this order, and returns with \<^verbatim>\<open>TPI->SPPR\<close> holding the protocol and \<^verbatim>\<open>TPI->FFCR\<close>
  holding its former value with bit 1 (\<^verbatim>\<open>EnFCont\<close>) set when formatting is enabled and
  cleared when it is not, every other bit of it as before. \<^verbatim>\<open>TPI->ACPR\<close> holds the
  prescaler minus one for every prescaler but the least \<^verbatim>\<open>int\<close>. \<^verbatim>\<open>TPI->CSPSR\<close> holds the
  word whose only set bit is bit \<open>width - 1\<close> for a trace port width from 1 to 32.
  \<^verbatim>\<open>CoreDebug->DEMCR\<close> holds its former value with the trace enable bit set.
\<close>

theorem TpiuSetup_registers:
  "regs (TpiuSetup T options s) TPI_SPPR = Protocol options \<and>
   regs (TpiuSetup T options s) TPI_FFCR =
     (if FormattingEnabled options
      then regs s TPI_FFCR OR TPI_FFCR_EnFCont_Msk
      else regs s TPI_FFCR AND NOT TPI_FFCR_EnFCont_Msk) \<and>
   (bit (regs (TpiuSetup T options s) TPI_FFCR) 1 \<longleftrightarrow> FormattingEnabled options) \<and>
   (\<forall>n. n \<noteq> 1 \<longrightarrow>
      bit (regs (TpiuSetup T options s) TPI_FFCR) n = bit (regs s TPI_FFCR) n) \<and>
   map fst (wlog (TpiuSetup T options s)) =
     map fst (wlog s) @ [CoreDebug_DEMCR, TPI_ACPR, TPI_SPPR, TPI_CSPSR, TPI_FFCR] \<and>
   (sint (SwoPrescaler options) \<noteq> - (2 ^ 31) \<longrightarrow>
      regs (TpiuSetup T options s) TPI_ACPR = SwoPrescaler options - 1) \<and>
   (1 \<le> unat (TracePortWidth options) \<and> unat (TracePortWidth options) \<le> 32 \<longrightarrow>
      regs (TpiuSetup T options s) TPI_CSPSR = push_bit (unat (TracePortWidth options) - 1) 1 \<and>
      (\<forall>n < 32. bit (regs (TpiuSetup T options s) TPI_CSPSR) n
                  \<longleftrightarrow> n = unat (TracePortWidth options) - 1)) \<and>
   regs (TpiuSetup T options s) CoreDebug_DEMCR =
     regs s CoreDebug_DEMCR OR CoreDebug_DEMCR_TRCENA_Msk"
proof -
  let ?s' = "TpiuSetup T options s"
  let ?w = "unat (TracePortWidth options)"
  have f1: "bit (regs ?s' TPI_FFCR) 1 \<longleftrightarrow> FormattingEnabled options"
    unfolding TpiuSetup_FFCR
    by (simp add: bit_or_iff bit_and_iff bit_not_iff EnFCont_bit)
  have f2: "\<forall>n. n \<noteq> 1 \<longrightarrow> bit (regs ?s' TPI_FFCR) n = bit (regs s TPI_FFCR) n"
    unfolding TpiuSetup_FFCR
    by (auto simp add: bit_or_iff bit_and_iff bit_not_iff EnFCont_bit dest: bit_imp_le_length)
  have a: "sint (SwoPrescaler options) \<noteq> - (2 ^ 31) \<longrightarrow>
      regs ?s' TPI_ACPR = SwoPrescaler options - 1"
    unfolding TpiuSetup_ACPR
    by (intro impI) (rule sub_on_one)
  have c: "1 \<le> ?w \<and> ?w \<le> 32 \<longrightarrow>
      regs ?s' TPI_CSPSR = push_bit (?w - 1) 1 \<and>
      (\<forall>n < 32. bit (regs ?s' TPI_CSPSR) n \<longleftrightarrow> n = ?w - 1)"
  proof (intro impI)
    assume w: "1 \<le> ?w \<and> ?w \<le> 32"
    then have v: "regs ?s' TPI_CSPSR = 2 ^ (?w - 1)"
      unfolding TpiuSetup_CSPSR by (intro shl_on_width) simp_all
    from w have "?w - 1 < 32"
      by arith
    then show "regs ?s' TPI_CSPSR = push_bit (?w - 1) 1 \<and>
      (\<forall>n < 32. bit (regs ?s' TPI_CSPSR) n \<longleftrightarrow> n = ?w - 1)"
      unfolding v push_bit_of_1
      by (auto simp add: bit_exp_iff)
  qed
  show ?thesis
    by (intro conjI) (rule TpiuSetup_SPPR TpiuSetup_FFCR f1 f2 TpiuSetup_wlog a c TpiuSetup_DEMCR)+
qed

theorem TpiuSetup_registers_witness:
  "sint (SwoPrescaler TpiuOptions1) \<noteq> - (2 ^ 31) \<and>
   1 \<le> unat (TracePortWidth TpiuOptions1) \<and> unat (TracePortWidth TpiuOptions1) \<le> 32 \<and>
   regs (TpiuSetup cortex_m3 TpiuOptions1 (machine0\<lparr>regs := (\<lambda>_. 0)(TPI_FFCR := 0x102)\<rparr>))
     TPI_ACPR = 7 \<and>
   regs (TpiuSetup cortex_m3 TpiuOptions1 (machine0\<lparr>regs := (\<lambda>_. 0)(TPI_FFCR := 0x102)\<rparr>))
     TPI_SPPR = 2 \<and>
   regs (TpiuSetup cortex_m3 TpiuOptions1 (machine0\<lparr>regs := (\<lambda>_. 0)(TPI_FFCR := 0x102)\<rparr>))
     TPI_CSPSR = 8 \<and>
   regs (TpiuSetup cortex_m3 TpiuOptions1 (machine0\<lparr>regs := (\<lambda>_. 0)(TPI_FFCR := 0x102)\<rparr>))
     TPI_FFCR = 0x100"
proof -
  let ?s = "machine0\<lparr>regs := (\<lambda>_. 0)(TPI_FFCR := 0x102)\<rparr>"
  have p: "SwoPrescaler TpiuOptions1 = 8"
    and w: "TracePortWidth TpiuOptions1 = 4"
    and r: "Protocol TpiuOptions1 = 2"
    and f: "\<not> FormattingEnabled TpiuOptions1"
    by (simp_all add: TpiuOptions1_def TpiuProtocolSwoUart_def)
  have a: "sint (SwoPrescaler TpiuOptions1) \<noteq> - (2 ^ 31)"
    unfolding p by simp
  have b: "1 \<le> unat (TracePortWidth TpiuOptions1) \<and> unat (TracePortWidth TpiuOptions1) \<le> 32"
    unfolding w by simp
  have m: "(0x102 :: u32) AND NOT TPI_FFCR_EnFCont_Msk = 0x100"
    by (simp add: TPI_FFCR_EnFCont_Msk_def)
  note t = TpiuSetup_registers [of cortex_m3 TpiuOptions1 ?s]
  from t a have "regs (TpiuSetup cortex_m3 TpiuOptions1 ?s) TPI_ACPR = 7"
    unfolding p by simp
  moreover from t have "regs (TpiuSetup cortex_m3 TpiuOptions1 ?s) TPI_SPPR = 2"
    unfolding r by blast
  moreover from t b have "regs (TpiuSetup cortex_m3 TpiuOptions1 ?s) TPI_CSPSR = 8"
    unfolding w by simp
  moreover from t f have "regs (TpiuSetup cortex_m3 TpiuOptions1 ?s) TPI_FFCR = 0x100"
    by (simp add: m)
  ultimately show ?thesis
    using a b by blast
qed

text \<open>
  C9 as stated fails outside the widths 1 to 32, and the call still makes all its five
  stores there. For a width of 40 the bit position 39 does not exist in the 32-bit
  register, whatever the shift produces. For a width of 0, which is what a caller who
  selects an SWO protocol may well leave in the field, the shift count is -1 and the
  Cortex-M3 stores 0, a word with no bit set.
\<close>

theorem TpiuSetup_width_counterexample:
  "TracePortWidth TpiuOptions_w0 = 0 \<and>
   regs (TpiuSetup cortex_m3 TpiuOptions_w0 machine0) TPI_CSPSR = 0 \<and>
   map fst (wlog (TpiuSetup cortex_m3 TpiuOptions_w0 machine0)) =
     [CoreDebug_DEMCR, TPI_ACPR, TPI_SPPR, TPI_CSPSR, TPI_FFCR] \<and>
   TracePortWidth TpiuOptions_w40 = 40 \<and>
   (\<forall>T. \<not> bit (regs (TpiuSetup T TpiuOptions_w40 machine0) TPI_CSPSR) 39) \<and>
   (\<forall>T. map fst (wlog (TpiuSetup T TpiuOptions_w40 machine0)) =
     [CoreDebug_DEMCR, TPI_ACPR, TPI_SPPR, TPI_CSPSR, TPI_FFCR])"
proof -
  have w0: "TracePortWidth TpiuOptions_w0 = 0"
    by (simp add: TpiuOptions_w0_def)
  have w40: "TracePortWidth TpiuOptions_w40 = 40"
    by (simp add: TpiuOptions_w40_def)
  have "shl_int 1 (uint (0::u8) - 1) = None"
    by (simp add: shl_int_def)
  then have z: "shl_on cortex_m3 1 (uint (0::u8) - 1) = 0"
    by (simp add: shl_on_def cortex_m3_def)
  have l: "wlog machine0 = []"
    by (simp add: machine0_def)
  have "\<not> bit (x::u32) 39" for x
    by (auto dest: bit_imp_le_length)
  then show ?thesis
    unfolding TpiuSetup_CSPSR TpiuSetup_wlog w0 w40 z l
    by simp
qed

end
